theory Spec2Isabelle
  imports Main "HOL-Library.Sublist"
begin

section \<open>JavaScript values used by the adapter\<close>

text \<open>
  Strings are lists of bytes (UTF-8 text).  The model is exact on ASCII text;
  a code point beyond ASCII is a run of opaque bytes.  An optional string field
  of a parameter bag (\<^verbatim>\<open>type?: string\<close>) is a \<^typ>\<open>string option\<close>, \<^term>\<open>None\<close>
  being \<^verbatim>\<open>undefined\<close>.  The source tests such fields by truthiness, so both
  \<^verbatim>\<open>undefined\<close> and the empty string count as "not supplied".
\<close>

definition truthy :: "string option \<Rightarrow> bool" where
  "truthy v = (case v of None \<Rightarrow> False | Some s \<Rightarrow> s \<noteq> [])"

text \<open>\<^verbatim>\<open>v || d\<close> on an optional string.\<close>

definition or_else :: "string option \<Rightarrow> string \<Rightarrow> string" where
  "or_else v d = (case v of None \<Rightarrow> d | Some s \<Rightarrow> if s = [] then d else s)"

text \<open>A template hole \<^verbatim>\<open>${v}\<close> filled with an optional string.\<close>

definition tmpl :: "string option \<Rightarrow> string" where
  "tmpl v = (case v of None \<Rightarrow> ''undefined'' | Some s \<Rightarrow> s)"

text \<open>\<^verbatim>\<open>String.prototype.toLowerCase\<close>, on the ASCII letters.\<close>

definition toLowerCase_unit :: "char \<Rightarrow> char" where
  "toLowerCase_unit c =
     (let n = (of_char c :: nat)
      in if 65 \<le> n \<and> n \<le> 90 then char_of (n + 32) else c)"

definition toLowerCase :: "string \<Rightarrow> string" where
  "toLowerCase s = map toLowerCase_unit s"

text \<open>\<^verbatim>\<open>Array.prototype.join\<close> on an array of strings.\<close>

fun join :: "string \<Rightarrow> string list \<Rightarrow> string" where
  "join sep [] = []"
| "join sep [x] = x"
| "join sep (x # y # ys) = x @ sep @ join sep (y # ys)"

text \<open>
  Numbers that reach a template hole here are integers (a sorting rank, a count
  of minutes); they print in decimal, with a minus sign when negative.
\<close>

definition digit :: "nat \<Rightarrow> char" where
  "digit d = (if d = 0 then CHR ''0'' else if d = 1 then CHR ''1''
     else if d = 2 then CHR ''2'' else if d = 3 then CHR ''3''
     else if d = 4 then CHR ''4'' else if d = 5 then CHR ''5''
     else if d = 6 then CHR ''6'' else if d = 7 then CHR ''7''
     else if d = 8 then CHR ''8'' else CHR ''9'')"

fun natToString :: "nat \<Rightarrow> string" where
  "natToString n =
     (if n < 10 then [digit n] else natToString (n div 10) @ [digit (n mod 10)])"

declare natToString.simps [simp del]

definition numberToString :: "int \<Rightarrow> string" where
  "numberToString i =
     (if i < 0 then CHR ''-'' # natToString (nat (- i)) else natToString (nat i))"

text \<open>
  \<^verbatim>\<open>Math.floor(a / 60)\<close> on an integer is \<^term>\<open>a div 60\<close>.  The remainder operator
  \<^verbatim>\<open>%\<close> truncates towards zero: its result has the sign of the dividend.
\<close>

definition js_rem :: "int \<Rightarrow> int \<Rightarrow> int" where
  "js_rem a b = (if a < 0 then - (\<bar>a\<bar> mod \<bar>b\<bar>) else \<bar>a\<bar> mod \<bar>b\<bar>)"

section \<open>Parameter bags of the issues client\<close>

record IssueCreateParams =
  summary :: "string option"
  description :: "string option"
  type :: "string option"
  priority :: "string option"
  assignee :: "string option"
  dueDate :: "string option"
  tags :: "string list option"
  parentId :: "string option"
  devTeam :: "string option"
  businessProc :: "string option"
  sorting :: "int option"

record IssueUpdateParams =
  summary :: "string option"
  description :: "string option"
  state :: "string option"
  priority :: "string option"
  assignee :: "string option"
  type :: "string option"
  dueDate :: "string option"
  estimation :: "int option"
  subsystem :: "string option"
  tags :: "string list option"

section \<open>Command synthesis\<close>

text \<open>
  Step 2 of \<^verbatim>\<open>createIssue\<close>: the array \<^verbatim>\<open>commandParts\<close> after each
  conditional \<^verbatim>\<open>push\<close>, in the order of the source.
\<close>

definition commandParts :: "IssueCreateParams \<Rightarrow> string list" where
  "commandParts params =
     (let parts0 = [];
          parts1 = (if truthy (parentId params)
                    then parts0 @ [''subtask of '' @ tmpl (parentId params)] else parts0);
          parts2 = (if truthy (IssueCreateParams.type params)
                    then parts1 @ [''Type: '' @ tmpl (IssueCreateParams.type params)]
                    else parts1);
          parts3 = parts2 @
                    [''Priority: '' @ or_else (IssueCreateParams.priority params) ''Normal''];
          typeStr = toLowerCase (or_else (IssueCreateParams.type params) []);
          parts4 = (if typeStr \<in> set [''epic'', ''user story'', ''feature'']
                       \<or> \<not> truthy (IssueCreateParams.type params)
                    then parts3 @ [''Sorting: '' @
                           numberToString (case sorting params of None \<Rightarrow> 0 | Some n \<Rightarrow> n)]
                    else parts3);
          parts5 = (if typeStr \<in> set [''task'', ''feature'', ''bug'', ''devops'']
                       \<and> truthy (devTeam params)
                    then parts4 @ [''Dev_Team: '' @ tmpl (devTeam params)] else parts4);
          parts6 = (if truthy (IssueCreateParams.assignee params)
                    then parts5 @ [''Assignee: '' @ tmpl (IssueCreateParams.assignee params)]
                    else parts5)
      in parts6)"

text \<open>
  The estimation branch of \<^verbatim>\<open>updateIssue\<close>: minutes to the tracker's duration
  syntax.
\<close>

definition estimationStr :: "int \<Rightarrow> string" where
  "estimationStr est =
     (let hours = est div 60;
          minutes = js_rem est 60;
          estParts0 = [];
          estParts1 = (if hours \<noteq> 0 then estParts0 @ [numberToString hours @ ''h'']
                       else estParts0);
          estParts2 = (if minutes \<noteq> 0 then estParts1 @ [numberToString minutes @ ''m'']
                       else estParts1)
      in if length estParts2 \<noteq> 0 then join '' '' estParts2 else ''0m'')"

text \<open>The array \<^verbatim>\<open>commandParts\<close> of \<^verbatim>\<open>updateIssue\<close>.\<close>

definition updateCommandParts :: "IssueUpdateParams \<Rightarrow> string list" where
  "updateCommandParts updates =
     (let parts0 = [];
          parts1 = (if truthy (state updates)
                    then parts0 @ [''State: '' @ tmpl (state updates)] else parts0);
          parts2 = (if truthy (priority updates)
                    then parts1 @ [''Priority: '' @ tmpl (priority updates)] else parts1);
          parts3 = (if truthy (type updates)
                    then parts2 @ [''Type: '' @ tmpl (type updates)] else parts2);
          parts4 = (if truthy (assignee updates)
                    then parts3 @ [''Assignee: '' @ tmpl (assignee updates)] else parts3);
          parts5 = (if truthy (subsystem updates)
                    then parts4 @ [''Subsystem: '' @ tmpl (subsystem updates)] else parts4);
          parts6 = (case estimation updates of
                      None \<Rightarrow> parts5
                    | Some est \<Rightarrow> parts5 @ [''Estimation '' @ estimationStr est])
      in parts6)"

section \<open>JSON values, thrown errors and the outside world\<close>

datatype json =
    JUndefined
  | JNull
  | JBool bool
  | JNum int
  | JStr string
  | JArr "json list"
  | JObj "(string \<times> json) list"

text \<open>Truthiness of a value, as \<^verbatim>\<open>if (v)\<close>, \<^verbatim>\<open>!v\<close> and \<^verbatim>\<open>v || d\<close> test it.\<close>

fun jtruthy :: "json \<Rightarrow> bool" where
  "jtruthy JUndefined = False"
| "jtruthy JNull = False"
| "jtruthy (JBool b) = b"
| "jtruthy (JNum n) = (n \<noteq> 0)"
| "jtruthy (JStr s) = (s \<noteq> [])"
| "jtruthy (JArr xs) = True"
| "jtruthy (JObj kvs) = True"

definition jor :: "json \<Rightarrow> json \<Rightarrow> json" where
  "jor a b = (if jtruthy a then a else b)"

text \<open>
  An optional property read \<^verbatim>\<open>v?.k\<close>: \<^verbatim>\<open>undefined\<close> unless \<^verbatim>\<open>v\<close> is an object
  that binds \<^verbatim>\<open>k\<close>.
\<close>

fun property :: "json \<Rightarrow> string \<Rightarrow> json" where
  "property (JObj kvs) k = (case map_of kvs k of None \<Rightarrow> JUndefined | Some v \<Rightarrow> v)"
| "property v k = JUndefined"

text \<open>A template hole \<^verbatim>\<open>${v}\<close> filled with a JSON value.\<close>

fun jtmpl :: "json \<Rightarrow> string" where
  "jtmpl JUndefined = ''undefined''"
| "jtmpl JNull = ''null''"
| "jtmpl (JBool b) = (if b then ''true'' else ''false'')"
| "jtmpl (JNum n) = numberToString n"
| "jtmpl (JStr s) = s"
| "jtmpl (JArr xs) =
     join '','' (map (\<lambda>x. if x = JUndefined \<or> x = JNull then [] else jtmpl x) xs)"
| "jtmpl (JObj kvs) = ''[object Object]''"

definition opt_str :: "string option \<Rightarrow> json" where
  "opt_str v = (case v of None \<Rightarrow> JUndefined | Some s \<Rightarrow> JStr s)"

definition opt_num :: "int option \<Rightarrow> json" where
  "opt_num v = (case v of None \<Rightarrow> JUndefined | Some n \<Rightarrow> JNum n)"

text \<open>\<^verbatim>\<open>String.prototype.includes\<close>.\<close>

fun str_includes :: "string \<Rightarrow> string \<Rightarrow> bool" where
  "str_includes [] sub = (sub = [])"
| "str_includes (c # cs) sub = (prefix sub (c # cs) \<or> str_includes cs sub)"

text \<open>Thrown values are error objects: a class and a message.\<close>

datatype exn =
    Error string
  | TypeError string
  | ValidationError string
  | McpError string

fun message :: "exn \<Rightarrow> string" where
  "message (Error m) = m"
| "message (TypeError m) = m"
| "message (ValidationError m) = m"
| "message (McpError m) = m"

fun exn_name :: "exn \<Rightarrow> string" where
  "exn_name (Error m) = ''Error''"
| "exn_name (TypeError m) = ''TypeError''"
| "exn_name (ValidationError m) = ''ValidationError''"
| "exn_name (McpError m) = ''McpError''"

text \<open>\<^verbatim>\<open>String(err)\<close> and \<^verbatim>\<open>err.message || String(err)\<close>.\<close>

definition String_exn :: "exn \<Rightarrow> string" where
  "String_exn e = (if message e = [] then exn_name e else exn_name e @ '': '' @ message e)"

definition message_or_String :: "exn \<Rightarrow> string" where
  "message_or_String e = (if message e \<noteq> [] then message e else String_exn e)"

text \<open>
  The world outside one tool call: the requests sent to the backend so far, in
  order, and the lines written to the logger.
\<close>

datatype request = GET string json | POST string json

datatype level = Warn | Err

record world =
  calls :: "request list"
  logs :: "(level \<times> string \<times> json) list"

definition logger_warn :: "string \<Rightarrow> json \<Rightarrow> world \<Rightarrow> world" where
  "logger_warn msg meta w = w\<lparr>logs := logs w @ [(Warn, msg, meta)]\<rparr>"

definition logger_error :: "string \<Rightarrow> json \<Rightarrow> world \<Rightarrow> world" where
  "logger_error msg meta w = w\<lparr>logs := logs w @ [(Err, msg, meta)]\<rparr>"

text \<open>
  The transport client (\<^verbatim>\<open>BaseAPIClient.get\<close> and \<^verbatim>\<open>post\<close>) is an external
  collaborator: any deterministic backend, answering a request, given the
  requests before it, with the \<^verbatim>\<open>data\<close> of a response or with a thrown error.
  The description sanitizer and the default field list are imported constants
  of the client module.
\<close>

type_synonym transport = "request list \<Rightarrow> request \<Rightarrow> exn + json"

record client =
  transport :: transport
  sanitizeDescription :: "string option \<Rightarrow> json"
  IssueFields_SEARCH :: string

definition send :: "client \<Rightarrow> request \<Rightarrow> world \<Rightarrow> (exn + json) \<times> world" where
  "send c r w = (transport c (calls w) r, w\<lparr>calls := calls w @ [r]\<rparr>)"

text \<open>
  Calls of the response formatter, an external module, are kept as they are
  made: the constructor is the method, its arguments the call's.
\<close>

datatype MCPResponse =
    FormatError string json
  | FormatCreated json string string
  | FormatUpdated json string IssueUpdateParams string json
  | FormatDeleted string string
  | FormatSuccess json string
  | FormatList json string json

section \<open>The issues client\<close>

definition dq :: string where
  "dq = [CHR 0x22]"

definition sq :: string where
  "sq = [CHR 0x27]"

definition is_digit :: "char \<Rightarrow> bool" where
  "is_digit c = (let n = (of_char c :: nat) in 48 \<le> n \<and> n \<le> 57)"

text \<open>The test \<^verbatim>\<open>/^\d+-\d+$/\<close>.\<close>

definition isInternalId :: "string \<Rightarrow> bool" where
  "isInternalId s =
     (let a = takeWhile is_digit s; r = dropWhile is_digit s
      in a \<noteq> [] \<and>
         (case r of [] \<Rightarrow> False
          | c # b \<Rightarrow> c = CHR ''-'' \<and> b \<noteq> [] \<and> list_all is_digit b))"

definition resolveInternalProjectId :: "client \<Rightarrow> string \<Rightarrow> world \<Rightarrow> json \<times> world" where
  "resolveInternalProjectId c projectId w =
     (if isInternalId projectId then (JStr projectId, w)
      else case send c (GET (''/admin/projects/'' @ projectId)
                            (JObj [(''fields'', JStr ''id'')])) w of
             (Inr data, w1) \<Rightarrow> (jor (property data ''id'') (JStr projectId), w1)
           | (Inl e, w1) \<Rightarrow> (JStr projectId, w1))"

definition applyCommand :: "client \<Rightarrow> json \<Rightarrow> string \<Rightarrow> world \<Rightarrow> (exn + json) \<times> world" where
  "applyCommand c issueId command w =
     send c (POST ''/commands''
               (JObj [(''query'', JStr command),
                      (''issues'', JArr [JObj [(''idReadable'', issueId)]])])) w"

text \<open>
  \<^verbatim>\<open>customFields?.find((f) => f.name === 'Business_proc')\<close>.  Reading \<^verbatim>\<open>name\<close> off
  a null element, or calling \<^verbatim>\<open>find\<close> on a value that is no array, throws a
  \<^verbatim>\<open>TypeError\<close> (the messages are Node's).
\<close>

fun find_Business_proc :: "json list \<Rightarrow> exn + json" where
  "find_Business_proc [] = Inr JUndefined"
| "find_Business_proc (f # fs) =
     (if f = JUndefined \<or> f = JNull
      then Inl (TypeError (''Cannot read properties of '' @ jtmpl f @ '' (reading ''
                           @ sq @ ''name'' @ sq @ '')''))
      else if property f ''name'' = JStr ''Business_proc'' then Inr f
      else find_Business_proc fs)"

fun find_customField :: "json \<Rightarrow> exn + json" where
  "find_customField JUndefined = Inr JUndefined"
| "find_customField JNull = Inr JUndefined"
| "find_customField (JArr fs) = find_Business_proc fs"
| "find_customField v =
     Inl (TypeError ''fieldsResp.data?.customFields?.find is not a function'')"

definition setBusinessProcDirect :: "client \<Rightarrow> string \<Rightarrow> json \<Rightarrow> world \<Rightarrow> world" where
  "setBusinessProcDirect c bp idReadable w =
     (let failed = (\<lambda>bpErr. logger_warn (''Created '' @ jtmpl idReadable
                       @ '' but failed to set Business_proc: '' @ message bpErr) JUndefined)
      in case send c (GET (''/issues/'' @ jtmpl idReadable)
                       (JObj [(''fields'',
                               JStr ''customFields(id,name,projectCustomField(id))'')])) w of
           (Inl bpErr, w1) \<Rightarrow> failed bpErr w1
         | (Inr data, w1) \<Rightarrow>
             (case find_customField (property data ''customFields'') of
                Inl bpErr \<Rightarrow> failed bpErr w1
              | Inr bpField \<Rightarrow>
                  if jtruthy bpField
                  then (case send c
                          (POST (''/issues/'' @ jtmpl idReadable @ ''/customFields/''
                                 @ jtmpl (jor (property (property bpField ''projectCustomField'')
                                                  ''id'')
                                              (property bpField ''id'')))
                                (JObj [(''value'', JObj [(''name'', JStr bp)])])) w1 of
                          (Inl bpErr, w2) \<Rightarrow> failed bpErr w2
                        | (Inr r, w2) \<Rightarrow> w2)
                  else w1))"

text \<open>Step 4 of \<^verbatim>\<open>createIssue\<close>: the command first, the custom field on failure.\<close>

definition setBusinessProc :: "client \<Rightarrow> string \<Rightarrow> json \<Rightarrow> world \<Rightarrow> world" where
  "setBusinessProc c bp idReadable w =
     (case applyCommand c idReadable (''Business_proc '' @ bp) w of
        (Inr r, w1) \<Rightarrow> w1
      | (Inl e, w1) \<Rightarrow> setBusinessProcDirect c bp idReadable w1)"

text \<open>
  Steps 3 and 4.  \<^term>\<open>Inl\<close> is an error thrown inside the outer \<^verbatim>\<open>try\<close>;
  \<^verbatim>\<open>issue.idReadable\<close> throws when the response carries no data.
\<close>

definition submitDraft ::
  "client \<Rightarrow> IssueCreateParams \<Rightarrow> json \<Rightarrow> world \<Rightarrow> (exn + MCPResponse) \<times> world" where
  "submitDraft c params draftId w =
     (case send c (POST (''/issues?draftId='' @ jtmpl draftId
                         @ ''&fields=id,idReadable,summary,$type'') (JObj [])) w of
        (Inl error, w1) \<Rightarrow> (Inl error, w1)
      | (Inr issue, w1) \<Rightarrow>
          if issue = JUndefined \<or> issue = JNull
          then (Inl (TypeError (''Cannot read properties of '' @ jtmpl issue
                       @ '' (reading '' @ sq @ ''idReadable'' @ sq @ '')'')), w1)
          else
            let idReadable = jor (property issue ''idReadable'') (property issue ''id'');
                w2 = (if truthy (businessProc params) \<and> jtruthy idReadable
                      then setBusinessProc c (tmpl (businessProc params)) idReadable w1
                      else w1)
            in (Inr (FormatCreated issue ''Issue''
                       (''Issue '' @ dq @ tmpl (IssueCreateParams.summary params) @ dq
                        @ '' created successfully as '' @ jtmpl idReadable)), w2))"

text \<open>The draft request of step 1 and the command request of step 2.\<close>

definition draftRequest :: "client \<Rightarrow> json \<Rightarrow> IssueCreateParams \<Rightarrow> request" where
  "draftRequest c internalProjectId params =
     POST ''/users/me/drafts''
       (JObj [(''project'', JObj [(''id'', internalProjectId)]),
              (''summary'', opt_str (IssueCreateParams.summary params)),
              (''description'',
                 sanitizeDescription c (IssueCreateParams.description params)),
              (''usesMarkdown'', JBool True)])"

definition draftCommandRequest :: "string \<Rightarrow> json \<Rightarrow> request" where
  "draftCommandRequest command draftId =
     POST ''/commands''
       (JObj [(''query'', JStr command), (''issues'', JArr [JObj [(''id'', draftId)]])])"

text \<open>The body of the outer \<^verbatim>\<open>try\<close> of \<^verbatim>\<open>createIssue\<close>.\<close>

definition createIssue_try ::
  "client \<Rightarrow> string \<Rightarrow> IssueCreateParams \<Rightarrow> world \<Rightarrow> (exn + MCPResponse) \<times> world" where
  "createIssue_try c projectId params w =
     (case resolveInternalProjectId c projectId w of
        (internalProjectId, w1) \<Rightarrow>
          (case send c (draftRequest c internalProjectId params) w1 of
             (Inl error, w2) \<Rightarrow> (Inl error, w2)
           | (Inr draftData, w2) \<Rightarrow>
               let draftId = property draftData ''id''
               in if \<not> jtruthy draftId
                  then (Inr (FormatError
                          (''Failed to create draft '' @ [CHR 0xE2, CHR 0x80, CHR 0x94]
                           @ '' no ID returned'')
                          (JObj [(''projectId'', JStr projectId),
                                 (''summary'', opt_str (IssueCreateParams.summary params))])),
                        w2)
                  else
                    let command = join '' '' (commandParts params)
                    in case send c (draftCommandRequest command draftId) w2 of
                         (Inl cmdError, w3) \<Rightarrow>
                           let cmdMsg = message_or_String cmdError
                           in (Inr (FormatError
                                 (''Draft created but failed to apply fields: '' @ cmdMsg)
                                 (JObj [(''draftId'', draftId), (''command'', JStr command),
                                        (''projectId'', JStr projectId)])),
                               logger_warn (''Command failed for draft '' @ jtmpl draftId
                                            @ '': '' @ cmdMsg) JUndefined w3)
                       | (Inr r, w3) \<Rightarrow> submitDraft c params draftId w3))"

text \<open>The outer \<^verbatim>\<open>catch\<close> of \<^verbatim>\<open>createIssue\<close>.\<close>

definition createIssue_catch :: "string \<Rightarrow> IssueCreateParams \<Rightarrow> exn \<Rightarrow> MCPResponse" where
  "createIssue_catch projectId params error =
     (if str_includes (message error) ''404'' \<or> str_includes (message error) ''not found''
      then FormatError (''Project '' @ projectId @ '' not found. Please check the project ID.'')
             (JObj [(''projectId'', JStr projectId),
                    (''summary'', opt_str (IssueCreateParams.summary params))])
      else if str_includes (message error) ''403'' \<or> str_includes (message error) ''Forbidden''
      then FormatError (''You don'' @ sq @ ''t have permission to create issues in project ''
                        @ projectId @ ''.'')
             (JObj [(''projectId'', JStr projectId), (''action'', JStr ''create'')])
      else
        let errorMsg = message error
        in if str_includes errorMsg ''circular structure''
              \<or> str_includes errorMsg ''ECONNREFUSED''
              \<or> str_includes errorMsg ''ETIMEDOUT''
              \<or> str_includes errorMsg ''ENOTFOUND''
           then FormatError
                  ''Network error connecting to YouTrack. Check VPN/network connectivity.''
                  (JObj [(''projectId'', JStr projectId), (''action'', JStr ''create'')])
           else FormatError (if errorMsg \<noteq> [] then errorMsg else String_exn error)
                  (JObj [(''projectId'', JStr projectId),
                         (''summary'', opt_str (IssueCreateParams.summary params)),
                         (''action'', JStr ''create'')]))"

definition createIssue ::
  "client \<Rightarrow> string \<Rightarrow> IssueCreateParams \<Rightarrow> world \<Rightarrow> MCPResponse \<times> world" where
  "createIssue c projectId params w =
     (case createIssue_try c projectId params w of
        (Inr response, w1) \<Rightarrow> (response, w1)
      | (Inl error, w1) \<Rightarrow> (createIssue_catch projectId params error, w1))"

text \<open>
  The loop of \<^verbatim>\<open>updateIssue\<close> over \<^verbatim>\<open>commandParts\<close>: one \<^verbatim>\<open>applyCommand\<close> per
  command, a thrown error caught inside the loop body and pushed on
  \<^verbatim>\<open>commandErrors\<close>.
\<close>

fun applyCommands ::
  "client \<Rightarrow> string \<Rightarrow> string list \<Rightarrow> string list \<Rightarrow> world \<Rightarrow> string list \<times> world" where
  "applyCommands c issueId [] commandErrors w = (commandErrors, w)"
| "applyCommands c issueId (cmd # cmds) commandErrors w =
     (case applyCommand c (JStr issueId) cmd w of
        (Inr r, w1) \<Rightarrow> applyCommands c issueId cmds commandErrors w1
      | (Inl err, w1) \<Rightarrow>
          let msg = message_or_String err
          in applyCommands c issueId cmds (commandErrors @ [cmd @ '': '' @ msg])
               (logger_warn (''Failed to apply command to issue '' @ issueId @ '': '' @ cmd
                             @ '' -> '' @ msg) JUndefined w1))"

definition basicFieldPayload :: "client \<Rightarrow> IssueUpdateParams \<Rightarrow> (string \<times> json) list" where
  "basicFieldPayload c updates =
     (if truthy (summary updates) then [(''summary'', opt_str (summary updates))] else [])
     @ (if truthy (description updates)
        then [(''description'', sanitizeDescription c (description updates))] else [])"

definition basicFieldsRequest :: "string \<Rightarrow> (string \<times> json) list \<Rightarrow> request" where
  "basicFieldsRequest issueId payload =
     POST (''/issues/'' @ issueId) (JObj ((''$type'', JStr ''Issue'') # payload))"

definition tagsRequest :: "string \<Rightarrow> string list \<Rightarrow> request" where
  "tagsRequest issueId ts =
     POST (''/issues/'' @ issueId)
       (JObj [(''tags'', JArr (map (\<lambda>t. JObj [(''name'', JStr t)]) ts))])"

definition refreshRequest :: "string \<Rightarrow> request" where
  "refreshRequest issueId =
     GET (''/issues/'' @ issueId)
       (JObj [(''fields'', JStr (''id,idReadable,summary,description,''
                @ ''customFields(name,value(name)),project(shortName),tags(name)''))])"

definition updateBasicFields ::
  "client \<Rightarrow> string \<Rightarrow> IssueUpdateParams \<Rightarrow> string list \<Rightarrow> world \<Rightarrow> string list \<times> world" where
  "updateBasicFields c issueId updates commandErrors w =
     (let payload = basicFieldPayload c updates
      in if length payload > 0
         then (case send c (basicFieldsRequest issueId payload) w of
                 (Inr r, w1) \<Rightarrow> (commandErrors, w1)
               | (Inl postErr, w1) \<Rightarrow>
                   (commandErrors @ [''Basic fields: '' @ message postErr],
                    logger_error (''Failed to update basic fields for issue '' @ issueId
                                  @ '': '' @ String_exn postErr) JUndefined w1))
         else (commandErrors, w))"

definition updateTags ::
  "client \<Rightarrow> string \<Rightarrow> IssueUpdateParams \<Rightarrow> string list \<Rightarrow> world \<Rightarrow> string list \<times> world" where
  "updateTags c issueId updates commandErrors w =
     (case tags updates of
        None \<Rightarrow> (commandErrors, w)
      | Some ts \<Rightarrow>
          if length ts > 0
          then (case send c (tagsRequest issueId ts) w of
                  (Inr r, w1) \<Rightarrow> (commandErrors, w1)
                | (Inl tagErr, w1) \<Rightarrow>
                    (commandErrors @ [''Tags: '' @ message tagErr],
                     logger_warn (''Failed to update tags for issue '' @ issueId
                                  @ '': '' @ String_exn tagErr) JUndefined w1))
          else (commandErrors, w))"

definition updateMeta :: "string list \<Rightarrow> string list \<Rightarrow> json" where
  "updateMeta parts commandErrors =
     JObj ([(''appliedCommands'', JNum (int (length parts))),
            (''commandErrorsCount'', JNum (int (length commandErrors)))]
           @ (if length commandErrors \<noteq> 0
              then [(''commandErrors'', JArr (map JStr commandErrors))] else []))"

definition updateIssue ::
  "client \<Rightarrow> string \<Rightarrow> IssueUpdateParams \<Rightarrow> world \<Rightarrow> MCPResponse \<times> world" where
  "updateIssue c issueId updates w =
     (let parts = updateCommandParts updates
      in case applyCommands c issueId parts [] w of
        (commandErrors1, w1) \<Rightarrow>
      (case updateBasicFields c issueId updates commandErrors1 w1 of
        (commandErrors2, w2) \<Rightarrow>
      (case updateTags c issueId updates commandErrors2 w2 of
        (commandErrors, w3) \<Rightarrow>
      (case (case send c (refreshRequest issueId) w3 of
               (Inr data, w4) \<Rightarrow> (data, w4)
             | (Inl fetchErr, w4) \<Rightarrow>
                 (JNull, logger_warn (''Could not fetch refreshed issue '' @ issueId
                                      @ '': '' @ String_exn fetchErr) JUndefined w4)) of
        (updatedIssue, w5) \<Rightarrow>
          (FormatUpdated (jor updatedIssue (JObj [(''id'', JStr issueId)])) ''Issue'' updates
             (''Issue '' @ issueId @ '' updated''
              @ (if length commandErrors \<noteq> 0 then '' with partial errors''
                 else '' successfully''))
             (updateMeta parts commandErrors),
           w5)))))"

text \<open>\<^verbatim>\<open>queryIssues\<close>, \<^verbatim>\<open>smartSearchIssues\<close> and \<^verbatim>\<open>getIssueCount\<close>.\<close>

record IssueQueryParams =
  query :: json
  fields' :: json
  limit :: json
  skip :: json

text \<open>\<^verbatim>\<open>issues.length\<close> on the data of a response.\<close>

fun jlength :: "json \<Rightarrow> json" where
  "jlength (JArr xs) = JNum (int (length xs))"
| "jlength (JStr s) = JNum (int (length s))"
| "jlength v = property v ''length''"

definition queryRequest :: "client \<Rightarrow> IssueQueryParams \<Rightarrow> request" where
  "queryRequest c params =
     GET ''/issues''
       (JObj [(''query'', query params),
              (''fields'', jor (fields' params) (JStr (IssueFields_SEARCH c))),
              (''$top'', jor (limit params) (JNum 50)),
              (''$skip'', jor (skip params) (JNum 0))])"

definition queryIssues :: "client \<Rightarrow> IssueQueryParams \<Rightarrow> world \<Rightarrow> MCPResponse \<times> world" where
  "queryIssues c params w =
     (case send c (queryRequest c params) w of
        (Inr data, w1) \<Rightarrow>
          let issues = jor data (JArr [])
          in (FormatList issues ''issue''
                (JObj [(''totalCount'', jlength issues),
                       (''filters'', JObj [(''query'', query params)])]), w1)
      | (Inl error, w1) \<Rightarrow>
          (if str_includes (message error) ''400'' \<or> str_includes (message error) ''Bad Request''
           then FormatError (''Invalid query syntax: '' @ dq @ jtmpl (query params) @ dq
                             @ ''. Please check your search query.'')
                  (JObj [(''query'', query params),
                         (''hint'', JStr (''Example queries: '' @ dq @ ''project: MYPROJECT''
                            @ dq @ '', '' @ dq @ ''state: Open assignee: me'' @ dq @ '', ''
                            @ dq @ ''#Bug'' @ dq))])
           else FormatError (message_or_String error)
                  (JObj [(''query'', query params), (''action'', JStr ''query'')]),
           w1))"

definition smartSearchIssues ::
  "client \<Rightarrow> string option \<Rightarrow> string option \<Rightarrow> world \<Rightarrow> MCPResponse \<times> world" where
  "smartSearchIssues c searchQuery projectId w =
     (let q = (if truthy projectId
               then JStr (''project: '' @ tmpl projectId @ '' '' @ tmpl searchQuery)
               else opt_str searchQuery)
      in queryIssues c \<lparr>query = q, fields' = JUndefined, limit = JUndefined,
                         skip = JUndefined\<rparr> w)"

definition countRequest :: "string \<Rightarrow> request" where
  "countRequest q = POST ''/issuesGetter/count'' (JObj [(''query'', JStr q)])"

definition getIssueCount :: "client \<Rightarrow> string \<Rightarrow> world \<Rightarrow> MCPResponse \<times> world" where
  "getIssueCount c q w =
     (case send c (countRequest q) w of
        (Inr data, w1) \<Rightarrow>
          let count = (if property data ''count'' = JUndefined \<or> property data ''count'' = JNull
                       then JNum 0 else property data ''count'')
          in (FormatSuccess (JObj [(''count'', count), (''query'', JStr q)])
                (''Found '' @ jtmpl count @ '' issues matching query''), w1)
      | (Inl error, w1) \<Rightarrow>
          (FormatError (''Failed to get issue count: '' @ message error)
             (JObj [(''query'', JStr q)]), w1))"

section \<open>The server: scope resolution and the issue handlers\<close>

record config =
  defaultProjectId :: "string option"

definition missingProjectId :: exn where
  "missingProjectId =
     Error (''Project ID is required. Either:'' @ [CHR 0x0A]
            @ ''1. Set PROJECT_ID in environment/config for single-project mode (recommended)''
            @ [CHR 0x0A]
            @ ''2. Provide projectId parameter in each request for multi-project access'')"

definition resolveProjectId ::
  "config \<Rightarrow> string option \<Rightarrow> bool \<Rightarrow> world \<Rightarrow> (exn + string) \<times> world" where
  "resolveProjectId cfg providedProjectId allowOverride w =
     (let configuredProjectId = defaultProjectId cfg
      in if truthy configuredProjectId
         then (Inr (tmpl configuredProjectId),
               if truthy providedProjectId \<and> providedProjectId \<noteq> configuredProjectId
                  \<and> \<not> allowOverride
               then logger_warn ''Project ID override attempt blocked''
                      (JObj [(''configuredProject'', opt_str configuredProjectId),
                             (''attemptedProject'', opt_str providedProjectId),
                             (''message'',
                              JStr ''Using configured project ID to enforce data isolation'')])
                      w
               else w)
         else if \<not> truthy providedProjectId then (Inl missingProjectId, w)
         else (Inr (tmpl providedProjectId), w))"

text \<open>
  \<^verbatim>\<open>query.replace(/project:\s*\S+/i, replacement)\<close>.  The pattern is tried at each
  position from the left; at a position it needs \<^verbatim>\<open>project:\<close> in any letter case,
  then takes all the white space that follows and all the characters up to the
  next white space, of which there must be one at least.  Only the first match
  is replaced (the pattern has no \<^verbatim>\<open>g\<close> flag).
\<close>

definition is_space :: "char \<Rightarrow> bool" where
  "is_space c = (let n = (of_char c :: nat) in (9 \<le> n \<and> n \<le> 13) \<or> n = 32)"

definition match_project_clause :: "string \<Rightarrow> nat option" where
  "match_project_clause s =
     (if toLowerCase (take 8 s) = ''project:''
      then let rest = drop 8 s;
               ws = takeWhile is_space rest;
               tok = takeWhile (\<lambda>c. \<not> is_space c) (dropWhile is_space rest)
           in if tok = [] then None else Some (8 + length ws + length tok)
      else None)"

text \<open>
  The replacement is a string, so \<^verbatim>\<open>$$\<close>, \<^verbatim>\<open>$&\<close>, \<^verbatim>\<open>$`\<close> and \<^verbatim>\<open>$'\<close> in it stand
  for a dollar sign, the match, the text before it and the text after it (the
  pattern has no groups, so \<^verbatim>\<open>$1\<close> and the like stay as they are).
\<close>

fun expand_replacement :: "string \<Rightarrow> string \<Rightarrow> string \<Rightarrow> string \<Rightarrow> string" where
  "expand_replacement [] pre matched post = []"
| "expand_replacement [c] pre matched post = [c]"
| "expand_replacement (c # d # r) pre matched post =
     (if c = CHR ''$'' \<and> d = CHR ''$''
        then CHR ''$'' # expand_replacement r pre matched post
      else if c = CHR ''$'' \<and> d = CHR ''&''
        then matched @ expand_replacement r pre matched post
      else if c = CHR ''$'' \<and> d = CHR 0x60
        then pre @ expand_replacement r pre matched post
      else if c = CHR ''$'' \<and> d = CHR 0x27
        then post @ expand_replacement r pre matched post
      else c # expand_replacement (d # r) pre matched post)"

fun replace_from :: "string \<Rightarrow> string \<Rightarrow> string \<Rightarrow> string" where
  "replace_from pre [] replacement = pre"
| "replace_from pre (c # cs) replacement =
     (case match_project_clause (c # cs) of
        Some n \<Rightarrow> pre
                  @ expand_replacement replacement pre (take n (c # cs)) (drop n (c # cs))
                  @ drop n (c # cs)
      | None \<Rightarrow> replace_from (pre @ [c]) cs replacement)"

definition replace_project_clause :: "string \<Rightarrow> string \<Rightarrow> string" where
  "replace_project_clause q replacement = replace_from [] q replacement"

text \<open>\<^verbatim>\<open>fields.split(',')\<close>.\<close>

fun split_comma :: "string \<Rightarrow> string list" where
  "split_comma [] = [[]]"
| "split_comma (c # cs) =
     (if c = CHR '','' then [] # split_comma cs
      else (case split_comma cs of [] \<Rightarrow> [[c]] | x # xs \<Rightarrow> (c # x) # xs))"

record QueryArgs =
  query :: "string option"
  fields' :: "string option"
  limit :: "int option"

text \<open>
  The scoping block of \<^verbatim>\<open>handleQueryIssues\<close>: from the resolved project id and
  the caller's query to \<^verbatim>\<open>scopedQuery\<close>.  \<^verbatim>\<open>query.toLowerCase()\<close> throws when no
  query was passed.
\<close>

definition scopeQuery ::
  "config \<Rightarrow> string \<Rightarrow> string option \<Rightarrow> world \<Rightarrow> (exn + json) \<times> world" where
  "scopeQuery cfg projectId q w =
     (if projectId \<noteq> []
      then (case q of
              None \<Rightarrow> (Inl (TypeError (''Cannot read properties of undefined (reading ''
                                       @ sq @ ''toLowerCase'' @ sq @ '')'')), w)
            | Some text \<Rightarrow>
                if \<not> str_includes (toLowerCase text) ''project:''
                then (Inr (JStr (''project: '' @ projectId @ '' '' @ text)), w)
                else if truthy (defaultProjectId cfg)
                then (Inr (JStr (replace_project_clause text (''project: '' @ projectId))),
                      logger_warn (''Query contains project filter but PROJECT_ID is ''
                                   @ ''configured - enforcing config project'')
                        (JObj [(''configuredProject'', opt_str (defaultProjectId cfg)),
                               (''originalQuery'', JStr text)]) w)
                else (Inr (JStr text), w))
      else (Inr (opt_str q), w))"

definition defaultQueryFields :: json where
  "defaultQueryFields =
     JArr (map JStr [''id'', ''summary'', ''description'', ''state'', ''priority'',
                     ''reporter'', ''assignee''])"

definition handleQueryIssues ::
  "config \<Rightarrow> client \<Rightarrow> QueryArgs \<Rightarrow> world \<Rightarrow> (exn + MCPResponse) \<times> world" where
  "handleQueryIssues cfg c args w =
     (case resolveProjectId cfg None False w of
        (Inl e, w1) \<Rightarrow> (Inl e, w1)
      | (Inr projectId, w1) \<Rightarrow>
          (case scopeQuery cfg projectId (QueryArgs.query args) w1 of
             (Inl e, w2) \<Rightarrow> (Inl e, w2)
           | (Inr scopedQuery, w2) \<Rightarrow>
               (case queryIssues c
                       \<lparr>IssueQueryParams.query = scopedQuery,
                        IssueQueryParams.fields' =
                          (if truthy (QueryArgs.fields' args)
                           then JArr (map JStr (split_comma (tmpl (QueryArgs.fields' args))))
                           else defaultQueryFields),
                        IssueQueryParams.limit = jor (opt_num (QueryArgs.limit args)) (JNum 50),
                        skip = JUndefined\<rparr> w2 of
                  (response, w3) \<Rightarrow> (Inr response, w3))))"

text \<open>
  \<^verbatim>\<open>handleIssuesManage\<close>, on the four actions that read or write issues of a
  project: \<^verbatim>\<open>create\<close>, \<^verbatim>\<open>query\<close>, \<^verbatim>\<open>search\<close> and \<^verbatim>\<open>count\<close>.  The parameter
  validator is an external module: each check either passes or throws.
\<close>

datatype issues_action = Create | Query | Search | Count

fun action_name :: "issues_action \<Rightarrow> string" where
  "action_name Create = ''create''"
| "action_name Query = ''query''"
| "action_name Search = ''search''"
| "action_name Count = ''count''"

record IssuesArgs =
  action :: issues_action
  projectId :: "string option"
  issueId :: "string option"
  summary :: "string option"
  description :: "string option"
  query :: "string option"
  priority :: "string option"
  assignee :: "string option"
  type :: "string option"
  parentId :: "string option"
  devTeam :: "string option"
  businessProc :: "string option"
  sorting :: "int option"
  fields' :: "string option"
  limit :: "int option"

record validator =
  validateProjectId :: "string \<Rightarrow> string \<Rightarrow> exn option"
  validateRequired :: "string option \<Rightarrow> string \<Rightarrow> exn option"
  toMcpError :: "exn \<Rightarrow> exn"

fun is_ValidationError :: "exn \<Rightarrow> bool" where
  "is_ValidationError (ValidationError m) = True"
| "is_ValidationError e = False"

text \<open>The first \<^verbatim>\<open>switch\<close>, inside its \<^verbatim>\<open>try\<close>: \<^term>\<open>Some\<close> is a thrown error.\<close>

definition validateIssuesArgs ::
  "config \<Rightarrow> validator \<Rightarrow> IssuesArgs \<Rightarrow> world \<Rightarrow> exn option \<times> world" where
  "validateIssuesArgs cfg v args w =
     (case action args of
        Create \<Rightarrow>
          (case resolveProjectId cfg (projectId args) False w of
             (Inl e, w1) \<Rightarrow> (Some e, w1)
           | (Inr p, w1) \<Rightarrow>
               (case validateProjectId v p ''projectId'' of
                  Some e \<Rightarrow> (Some e, w1)
                | None \<Rightarrow> (validateRequired v (summary args) ''summary'', w1)))
      | Query \<Rightarrow> (validateRequired v (query args) ''query'', w)
      | Search \<Rightarrow> (validateRequired v (query args) ''query'', w)
      | Count \<Rightarrow> (validateRequired v (query args) ''query'', w))"

definition handleIssuesManage ::
  "config \<Rightarrow> validator \<Rightarrow> client \<Rightarrow> IssuesArgs \<Rightarrow> world \<Rightarrow> (exn + MCPResponse) \<times> world" where
  "handleIssuesManage cfg v c args w =
     (case validateIssuesArgs cfg v args w of
        (Some error, w1) \<Rightarrow>
          (Inl (if is_ValidationError error then toMcpError v error else error),
           logger_error ''Issue parameter validation failed''
             (JObj [(''action'', JStr (action_name (action args))),
                    (''projectId'', opt_str (projectId args)),
                    (''issueId'', opt_str (issueId args)),
                    (''error'', JStr (message error))]) w1)
      | (None, w1) \<Rightarrow>
          (case action args of
             Create \<Rightarrow>
               (case resolveProjectId cfg (projectId args) False w1 of
                  (Inl e, w2) \<Rightarrow> (Inl e, w2)
                | (Inr p, w2) \<Rightarrow>
                    (case createIssue c p
                            \<lparr>IssueCreateParams.summary = summary args,
                             IssueCreateParams.description = description args,
                             IssueCreateParams.type = type args,
                             IssueCreateParams.priority = priority args,
                             IssueCreateParams.assignee = assignee args,
                             IssueCreateParams.dueDate = None,
                             IssueCreateParams.tags = None,
                             IssueCreateParams.parentId = parentId args,
                             IssueCreateParams.devTeam = devTeam args,
                             IssueCreateParams.businessProc = businessProc args,
                             IssueCreateParams.sorting = sorting args\<rparr> w2 of
                       (response, w3) \<Rightarrow> (Inr response, w3)))
           | Query \<Rightarrow>
               handleQueryIssues cfg c
                 \<lparr>QueryArgs.query = query args, QueryArgs.fields' = fields' args,
                  QueryArgs.limit = limit args\<rparr> w1
           | Search \<Rightarrow>
               (case resolveProjectId cfg (projectId args) False w1 of
                  (Inl e, w2) \<Rightarrow> (Inl e, w2)
                | (Inr p, w2) \<Rightarrow>
                    (case smartSearchIssues c (query args) (Some p) w2 of
                       (response, w3) \<Rightarrow> (Inr response, w3)))
           | Count \<Rightarrow>
               if \<not> truthy (query args)
               then (Inl (Error ''query is required for count action''), w1)
               else (case getIssueCount c (tmpl (query args)) w1 of
                       (response, w2) \<Rightarrow> (Inr response, w2))))"

section \<open>Notions used in the statements\<close>

text \<open>
  A clause of a command sequence is one element of \<^verbatim>\<open>commandParts\<close>; a clause
  for a field starts with the field's name and a colon.
\<close>

definition is_clause :: "string \<Rightarrow> string \<Rightarrow> bool" where
  "is_clause field part = prefix (field @ '':'') part"

text \<open>The position of a clause in the ordering contract (6: no known clause).\<close>

definition clause_rank :: "string \<Rightarrow> nat" where
  "clause_rank part =
     (if prefix ''subtask of '' part then 0
      else if is_clause ''Type'' part then 1
      else if is_clause ''Priority'' part then 2
      else if is_clause ''Sorting'' part then 3
      else if is_clause ''Dev_Team'' part then 4
      else if is_clause ''Assignee'' part then 5
      else 6)"

text \<open>
  The duration expression as the specification words it: whole hours, the
  remainder in minutes, an \<^verbatim>\<open>h\<close> token only for positive hours, an \<^verbatim>\<open>m\<close> token
  only for a positive remainder, and \<^verbatim>\<open>0m\<close> when both are zero.
\<close>

definition spec_duration :: "int \<Rightarrow> string" where
  "spec_duration m =
     (let hours = m div 60; remainder = m mod 60
      in if hours > 0 \<and> remainder > 0
           then numberToString hours @ ''h '' @ numberToString remainder @ ''m''
         else if hours > 0 then numberToString hours @ ''h''
         else if remainder > 0 then numberToString remainder @ ''m''
         else ''0m'')"

text \<open>The request of step 3 of \<^verbatim>\<open>createIssue\<close>: the draft promoted to an issue.\<close>

definition is_submitRequest :: "request \<Rightarrow> bool" where
  "is_submitRequest r =
     (case r of POST path body \<Rightarrow> prefix ''/issues?draftId='' path | GET path params \<Rightarrow> False)"

text \<open>
  The request one \<^verbatim>\<open>applyCommand\<close> sends, the answers of the backend to a run
  of requests sent one after the other, the error lines of the commands among
  them that failed, and the requests an update is expected to send: one per
  command, the direct write of summary and description, the write of the tags,
  the final read.
\<close>

definition commandRequest :: "string \<Rightarrow> string \<Rightarrow> request" where
  "commandRequest iid cmd =
     POST ''/commands''
       (JObj [(''query'', JStr cmd), (''issues'', JArr [JObj [(''idReadable'', JStr iid)]])])"

fun outcomes :: "client \<Rightarrow> request list \<Rightarrow> request list \<Rightarrow> (exn + json) list" where
  "outcomes c history [] = []"
| "outcomes c history (r # rs) = transport c history r # outcomes c (history @ [r]) rs"

fun errorLine :: "string \<times> (exn + json) \<Rightarrow> string list" where
  "errorLine (cmd, Inl err) = [cmd @ '': '' @ message_or_String err]"
| "errorLine (cmd, Inr r) = []"

definition commandErrorLines ::
  "client \<Rightarrow> string \<Rightarrow> string list \<Rightarrow> request list \<Rightarrow> string list" where
  "commandErrorLines c iid cmds history =
     concat (map errorLine
       (zip cmds (outcomes c history (map (commandRequest iid) cmds))))"

definition updateRequests :: "client \<Rightarrow> string \<Rightarrow> IssueUpdateParams \<Rightarrow> request list" where
  "updateRequests c iid updates =
     map (commandRequest iid) (updateCommandParts updates)
     @ (if basicFieldPayload c updates \<noteq> []
        then [basicFieldsRequest iid (basicFieldPayload c updates)] else [])
     @ (case IssueUpdateParams.tags updates of
          None \<Rightarrow> []
        | Some ts \<Rightarrow> if ts \<noteq> [] then [tagsRequest iid ts] else [])
     @ [refreshRequest iid]"

text \<open>
  The line a failed direct write leaves in \<^verbatim>\<open>commandErrors\<close>, for the write of
  summary and description and for the write of the tags, each given the requests
  sent before it.
\<close>

definition writeErrorLine :: "string \<Rightarrow> exn + json \<Rightarrow> string list" where
  "writeErrorLine label res =
     (case res of Inl err \<Rightarrow> [label @ '': '' @ message err] | Inr r \<Rightarrow> [])"

definition basicRequests :: "client \<Rightarrow> string \<Rightarrow> IssueUpdateParams \<Rightarrow> request list" where
  "basicRequests c iid updates =
     (if basicFieldPayload c updates \<noteq> []
      then [basicFieldsRequest iid (basicFieldPayload c updates)] else [])"

definition tagRequests :: "string \<Rightarrow> IssueUpdateParams \<Rightarrow> request list" where
  "tagRequests iid updates =
     (case IssueUpdateParams.tags updates of
        None \<Rightarrow> []
      | Some ts \<Rightarrow> if ts \<noteq> [] then [tagsRequest iid ts] else [])"

definition basicErrorLines ::
  "client \<Rightarrow> string \<Rightarrow> IssueUpdateParams \<Rightarrow> request list \<Rightarrow> string list" where
  "basicErrorLines c iid updates history =
     concat (map (\<lambda>r. writeErrorLine ''Basic fields'' (transport c history r))
                 (basicRequests c iid updates))"

definition tagErrorLines ::
  "client \<Rightarrow> string \<Rightarrow> IssueUpdateParams \<Rightarrow> request list \<Rightarrow> string list" where
  "tagErrorLines c iid updates history =
     concat (map (\<lambda>r. writeErrorLine ''Tags'' (transport c history r))
                 (tagRequests iid updates))"

text \<open>
  The response of an update as the caller reads it: whether it is the
  \<^verbatim>\<open>formatUpdated\<close> envelope, and the meta data passed to it.
\<close>

fun is_formatUpdated :: "MCPResponse \<Rightarrow> bool" where
  "is_formatUpdated (FormatUpdated d t u m meta) = True"
| "is_formatUpdated r = False"

fun meta_of :: "MCPResponse \<Rightarrow> json" where
  "meta_of (FormatUpdated d t u m meta) = meta"
| "meta_of r = JUndefined"

text \<open>
  An error line that reports a command: it starts with one of the commands,
  a colon and a space.
\<close>

definition is_commandErrorLine :: "string list \<Rightarrow> string \<Rightarrow> bool" where
  "is_commandErrorLine cmds e = list_ex (\<lambda>cmd. prefix (cmd @ '': '') e) cmds"

section \<open>Concrete inputs\<close>

text \<open>
  An empty world; a configuration that enforces project \<^verbatim>\<open>TEAM\<close> and one that
  enforces none; a validator that accepts everything; a backend that rejects
  every command and answers everything else with an object carrying ids.
\<close>

definition world0 :: world where
  "world0 = \<lparr>calls = [], logs = []\<rparr>"

definition team_cfg :: config where
  "team_cfg = \<lparr>defaultProjectId = Some ''TEAM''\<rparr>"

definition open_cfg :: config where
  "open_cfg = \<lparr>defaultProjectId = None\<rparr>"

definition accept_all :: validator where
  "accept_all = \<lparr>validateProjectId = (\<lambda>p n. None), validateRequired = (\<lambda>x n. None),
                  toMcpError = (\<lambda>e. McpError (message e))\<rparr>"

fun reject_commands :: transport where
  "reject_commands history (POST path body) =
     (if path = ''/commands'' then Inl (Error ''Unknown field'')
      else Inr (JObj [(''id'', JStr ''d-1''), (''idReadable'', JStr ''SC-1'')]))"
| "reject_commands history (GET path params) = Inr (JObj [(''id'', JStr ''77-1'')])"

definition demo_client :: client where
  "demo_client = \<lparr>transport = reject_commands, sanitizeDescription = opt_str,
                   IssueFields_SEARCH = ''id,summary''\<rparr>"

definition issues_args :: "issues_action \<Rightarrow> string option \<Rightarrow> string option \<Rightarrow> IssuesArgs" where
  "issues_args a p q =
     \<lparr>action = a, projectId = p, issueId = None, summary = Some ''X'', description = None,
      query = q, priority = None, assignee = None, type = Some ''Task'', parentId = None,
      devTeam = Some ''Backend'', businessProc = None, sorting = None, fields' = None,
      limit = None\<rparr>"

definition task_params :: IssueCreateParams where
  "task_params =
     \<lparr>IssueCreateParams.summary = Some ''X'', IssueCreateParams.description = None,
      IssueCreateParams.type = Some ''Task'', IssueCreateParams.priority = None,
      IssueCreateParams.assignee = None, IssueCreateParams.dueDate = None,
      IssueCreateParams.tags = None, IssueCreateParams.parentId = None,
      IssueCreateParams.devTeam = Some ''Backend'', IssueCreateParams.businessProc = None,
      IssueCreateParams.sorting = None\<rparr>"

definition epic_params :: IssueCreateParams where
  "epic_params =
     \<lparr>IssueCreateParams.summary = Some ''Y'', IssueCreateParams.description = None,
      IssueCreateParams.type = Some ''Epic'', IssueCreateParams.priority = Some ''Major'',
      IssueCreateParams.assignee = Some ''jdoe'', IssueCreateParams.dueDate = None,
      IssueCreateParams.tags = None, IssueCreateParams.parentId = Some ''SC-1'',
      IssueCreateParams.devTeam = Some ''Backend'', IssueCreateParams.businessProc = None,
      IssueCreateParams.sorting = Some 7\<rparr>"

definition estimation_update :: IssueUpdateParams where
  "estimation_update =
     \<lparr>IssueUpdateParams.summary = None, IssueUpdateParams.description = None,
      state = Some ''Open'', IssueUpdateParams.priority = None,
      IssueUpdateParams.assignee = None, IssueUpdateParams.type = None,
      IssueUpdateParams.dueDate = None, estimation = Some 150, subsystem = None,
      IssueUpdateParams.tags = None\<rparr>"

text \<open>A backend that rejects the priority \<^verbatim>\<open>Bogus\<close> and accepts the rest.\<close>

fun picky :: transport where
  "picky history (POST path body) =
     (if property body ''query'' = JStr ''Priority: Bogus''
      then Inl (Error ''Unknown value Bogus'') else Inr (JObj []))"
| "picky history (GET path params) = Inr (JObj [(''id'', JStr ''2-7''), (''idReadable'', JStr ''SC-7'')])"

definition picky_client :: client where
  "picky_client = \<lparr>transport = picky, sanitizeDescription = opt_str,
                    IssueFields_SEARCH = ''id,summary''\<rparr>"

definition three_updates :: IssueUpdateParams where
  "three_updates =
     \<lparr>IssueUpdateParams.summary = Some ''New title'', IssueUpdateParams.description = None,
      state = Some ''Open'', IssueUpdateParams.priority = Some ''Bogus'',
      IssueUpdateParams.assignee = Some ''jdoe'', IssueUpdateParams.type = None,
      IssueUpdateParams.dueDate = None, estimation = None, subsystem = None,
      IssueUpdateParams.tags = Some [''urgent'']\<rparr>"


text \<open>
  A backend that rejects the priority \<^verbatim>\<open>Bogus\<close> and every direct write to an
  issue, and an update that asks for a negative estimation.
\<close>

fun stubborn :: transport where
  "stubborn history (POST path body) =
     (if property body ''query'' = JStr ''Priority: Bogus''
      then Inl (Error ''Unknown value Bogus'')
      else if prefix ''/issues/'' path then Inl (Error ''boom'')
      else Inr (JObj []))"
| "stubborn history (GET path params) =
     Inr (JObj [(''id'', JStr ''2-7''), (''idReadable'', JStr ''SC-7'')])"

definition stubborn_client :: client where
  "stubborn_client = \<lparr>transport = stubborn, sanitizeDescription = opt_str,
                       IssueFields_SEARCH = ''id,summary''\<rparr>"

definition negative_update :: IssueUpdateParams where
  "negative_update =
     \<lparr>IssueUpdateParams.summary = None, IssueUpdateParams.description = None,
      state = None, IssueUpdateParams.priority = None,
      IssueUpdateParams.assignee = None, IssueUpdateParams.type = None,
      IssueUpdateParams.dueDate = None, estimation = Some (- 30), subsystem = None,
      IssueUpdateParams.tags = None\<rparr>"

section \<open>Eligibility of the Sorting and Dev_Team clauses\<close>

lemma truthy_of_lower: "toLowerCase (or_else v []) \<noteq> [] \<Longrightarrow> truthy v"
  by (cases v) (auto simp: toLowerCase_def or_else_def truthy_def)

lemma lower_Task: "toLowerCase ''Task'' = ''task''"
  by code_simp

lemma lower_Epic: "toLowerCase ''Epic'' = ''epic''"
  by code_simp

lemma numberToString_7: "numberToString 7 = ''7''"
  by code_simp

text \<open>
  Claim C6.  For every creation parameter set, the clauses of the synthesized
  command sequence that set \<^verbatim>\<open>Sorting\<close> are: exactly one, carrying the supplied
  sorting value or 0, when the lower-cased type is one of epic, user story,
  feature, or when no type was supplied; and none otherwise.  In particular
  there is none when the lower-cased type is task, bug or devops.
\<close>

theorem sorting_clause_eligibility:
  "filter (is_clause ''Sorting'') (commandParts params) =
     (if toLowerCase (or_else (IssueCreateParams.type params) [])
           \<in> {''epic'', ''user story'', ''feature''}
         \<or> \<not> truthy (IssueCreateParams.type params)
      then [''Sorting: '' @ numberToString
              (case IssueCreateParams.sorting params of None \<Rightarrow> 0 | Some n \<Rightarrow> n)]
      else [])
   \<and> (toLowerCase (or_else (IssueCreateParams.type params) [])
           \<in> {''task'', ''bug'', ''devops''}
        \<longrightarrow> filter (is_clause ''Sorting'') (commandParts params) = [])"
proof
  show "filter (is_clause ''Sorting'') (commandParts params) =
     (if toLowerCase (or_else (IssueCreateParams.type params) [])
           \<in> {''epic'', ''user story'', ''feature''}
         \<or> \<not> truthy (IssueCreateParams.type params)
      then [''Sorting: '' @ numberToString
              (case IssueCreateParams.sorting params of None \<Rightarrow> 0 | Some n \<Rightarrow> n)]
      else [])"
    by (simp add: commandParts_def Let_def is_clause_def)
  show "toLowerCase (or_else (IssueCreateParams.type params) [])
           \<in> {''task'', ''bug'', ''devops''}
        \<longrightarrow> filter (is_clause ''Sorting'') (commandParts params) = []"
  proof
    assume a: "toLowerCase (or_else (IssueCreateParams.type params) [])
           \<in> {''task'', ''bug'', ''devops''}"
    then have t: "truthy (IssueCreateParams.type params)"
      by (intro truthy_of_lower) auto
    from a have n: "toLowerCase (or_else (IssueCreateParams.type params) [])
           \<notin> set [''epic'', ''user story'', ''feature'']"
      by auto
    show "filter (is_clause ''Sorting'') (commandParts params) = []"
      unfolding commandParts_def Let_def using t n
      by (simp add: is_clause_def)
  qed
qed

theorem sorting_clause_eligibility_witness:
  "filter (is_clause ''Sorting'') (commandParts epic_params) = [''Sorting: 7'']
   \<and> toLowerCase (or_else (IssueCreateParams.type task_params) [])
        \<in> {''task'', ''bug'', ''devops''}
   \<and> filter (is_clause ''Sorting'') (commandParts task_params) = []"
  using sorting_clause_eligibility [of epic_params] sorting_clause_eligibility [of task_params]
  by (simp add: epic_params_def task_params_def or_else_def truthy_def lower_Task lower_Epic
        numberToString_7)

text \<open>
  Claim C7.  For every creation parameter set, the clauses of the synthesized
  command sequence that set \<^verbatim>\<open>Dev_Team\<close> are: exactly one, carrying the team,
  when the lower-cased type is one of task, feature, bug, devops and a team
  value was supplied; and none otherwise (no type, another type such as epic
  or user story, or no team).
\<close>

theorem dev_team_clause_eligibility:
  "filter (is_clause ''Dev_Team'') (commandParts params) =
     (if toLowerCase (or_else (IssueCreateParams.type params) [])
           \<in> {''task'', ''feature'', ''bug'', ''devops''}
         \<and> truthy (IssueCreateParams.devTeam params)
      then [''Dev_Team: '' @ tmpl (IssueCreateParams.devTeam params)]
      else [])"
  by (simp add: commandParts_def Let_def is_clause_def)

theorem dev_team_clause_eligibility_witness:
  "filter (is_clause ''Dev_Team'') (commandParts task_params) = [''Dev_Team: Backend'']
   \<and> filter (is_clause ''Dev_Team'') (commandParts epic_params) = []"
  using dev_team_clause_eligibility [of epic_params] dev_team_clause_eligibility [of task_params]
  by (simp add: epic_params_def task_params_def or_else_def truthy_def tmpl_def lower_Task
        lower_Epic)

section \<open>The estimation command\<close>

lemma js_rem_nonneg: "0 \<le> m \<Longrightarrow> js_rem m 60 = m mod 60"
  by (simp add: js_rem_def)

text \<open>
  Claim C8, as stated, fails on negative numbers.  The estimation branch runs
  for every number; at \<open>- 30\<close> the command is \<^verbatim>\<open>Estimation -1h -30m\<close>, with an
  \<^verbatim>\<open>h\<close> token for hours that are not positive and a remainder that is not
  \<open>- 30 mod 60\<close>, where the rule of the specification gives \<^verbatim>\<open>30m\<close>.
\<close>

theorem negative_estimation_keeps_sign:
  "last (updateCommandParts negative_update) = ''Estimation -1h -30m''
   \<and> estimationStr (- 30) = ''-1h -30m''
   \<and> spec_duration (- 30) = ''30m''
   \<and> estimationStr (- 30) \<noteq> spec_duration (- 30)"
proof -
  have a: "estimationStr (- 30) = ''-1h -30m''" by code_simp
  have b: "spec_duration (- 30) = ''30m''" by code_simp
  have c: "last (updateCommandParts negative_update) = ''Estimation '' @ estimationStr (- 30)"
    by (simp add: updateCommandParts_def negative_update_def Let_def truthy_def)
  from a b c show ?thesis by simp
qed

text \<open>
  Claim C8, amended.  For an update payload whose estimation is a non-negative
  whole number \<^term>\<open>m\<close> of minutes, the command synthesized for it is
  \<^verbatim>\<open>Estimation\<close> followed by the duration the specification describes:
  hours are \<^term>\<open>m div 60\<close>, the remainder is \<^term>\<open>m mod 60\<close>, the \<^verbatim>\<open>h\<close> token is
  there only for positive hours, the \<^verbatim>\<open>m\<close> token only for a positive remainder,
  and the text is \<^verbatim>\<open>0m\<close> when both are zero.  90 minutes give \<^verbatim>\<open>1h 30m\<close>,
  45 minutes \<^verbatim>\<open>45m\<close>, 0 minutes \<^verbatim>\<open>0m\<close>.
\<close>

theorem estimation_conversion:
  "(0 \<le> m \<longrightarrow> estimationStr m = spec_duration m)
   \<and> (estimation updates = Some m \<longrightarrow>
        last (updateCommandParts updates) = ''Estimation '' @ estimationStr m)
   \<and> estimationStr 90 = ''1h 30m''
   \<and> estimationStr 45 = ''45m''
   \<and> estimationStr 0 = ''0m''"
proof (intro conjI impI)
  assume "0 \<le> m"
  then have "js_rem m 60 = m mod 60" "0 \<le> m div 60" "0 \<le> m mod 60"
    by (simp_all add: js_rem_nonneg pos_imp_zdiv_nonneg_iff)
  then show "estimationStr m = spec_duration m"
    by (auto simp add: estimationStr_def spec_duration_def Let_def)
next
  assume "estimation updates = Some m"
  then show "last (updateCommandParts updates) = ''Estimation '' @ estimationStr m"
    by (simp add: updateCommandParts_def Let_def)
next
  show "estimationStr 90 = ''1h 30m''" by code_simp
  show "estimationStr 45 = ''45m''" by code_simp
  show "estimationStr 0 = ''0m''" by code_simp
qed

theorem estimation_conversion_witness:
  "(0::int) \<le> 150 \<and> estimationStr 150 = spec_duration 150
   \<and> estimation estimation_update = Some 150
   \<and> last (updateCommandParts estimation_update) = ''Estimation '' @ estimationStr 150"
  using estimation_conversion [of 150 estimation_update]
  by (simp add: estimation_update_def)

section \<open>The scope resolver\<close>

text \<open>
  Claim C3.  With an enforced project id configured (a non-empty
  \<^verbatim>\<open>defaultProjectId\<close>), the resolver returns it whatever id was provided and
  sends nothing to the backend; when a different id was provided and
  \<^verbatim>\<open>allowOverride\<close> is false it logs one warning and still returns the
  enforced id.  With none configured it returns the provided id when there is
  one, and otherwise fails with the missing-project error, leaving the world as
  it was; a \<^verbatim>\<open>create\<close> call without project id then fails with that error before
  any request is sent.  An id is present when it is a non-empty string.
\<close>

theorem scope_resolver_contract:
  "(defaultProjectId cfg = Some e \<and> e \<noteq> [] \<longrightarrow>
       fst (resolveProjectId cfg provided allowOverride w) = Inr e
     \<and> calls (snd (resolveProjectId cfg provided allowOverride w)) = calls w
     \<and> (provided = Some p \<and> p \<noteq> [] \<and> p \<noteq> e \<and> \<not> allowOverride \<longrightarrow>
          logs (snd (resolveProjectId cfg provided allowOverride w)) =
            logs w @ [(Warn, ''Project ID override attempt blocked'',
                       JObj [(''configuredProject'', JStr e), (''attemptedProject'', JStr p),
                             (''message'',
                              JStr ''Using configured project ID to enforce data isolation'')])]))
   \<and> (\<not> truthy (defaultProjectId cfg) \<and> provided = Some p \<and> p \<noteq> [] \<longrightarrow>
        resolveProjectId cfg provided allowOverride w = (Inr p, w))
   \<and> (\<not> truthy (defaultProjectId cfg) \<and> \<not> truthy provided \<longrightarrow>
        resolveProjectId cfg provided allowOverride w = (Inl missingProjectId, w))
   \<and> (\<not> truthy (defaultProjectId cfg) \<and> action args = Create \<and> \<not> truthy (projectId args) \<longrightarrow>
        fst (handleIssuesManage cfg v c args w) = Inl missingProjectId
      \<and> calls (snd (handleIssuesManage cfg v c args w)) = calls w)"
  by (auto simp add: resolveProjectId_def Let_def truthy_def tmpl_def opt_str_def
        logger_warn_def handleIssuesManage_def validateIssuesArgs_def missingProjectId_def
        logger_error_def
      split: option.splits)

theorem scope_resolver_contract_witness:
  "fst (resolveProjectId team_cfg (Some ''OTHER'') False world0) = Inr ''TEAM''
   \<and> calls (snd (resolveProjectId team_cfg (Some ''OTHER'') False world0)) = []
   \<and> logs (snd (resolveProjectId team_cfg (Some ''OTHER'') False world0)) =
        [(Warn, ''Project ID override attempt blocked'',
          JObj [(''configuredProject'', JStr ''TEAM''), (''attemptedProject'', JStr ''OTHER''),
                (''message'', JStr ''Using configured project ID to enforce data isolation'')])]
   \<and> resolveProjectId open_cfg (Some ''SC'') False world0 = (Inr ''SC'', world0)
   \<and> resolveProjectId open_cfg None False world0 = (Inl missingProjectId, world0)
   \<and> fst (handleIssuesManage open_cfg accept_all demo_client (issues_args Create None None) world0)
        = Inl missingProjectId
   \<and> calls (snd (handleIssuesManage open_cfg accept_all demo_client
                    (issues_args Create None None) world0)) = []"
  using
    scope_resolver_contract [where cfg = team_cfg and e = "''TEAM''" and provided = "Some ''OTHER''"
       and p = "''OTHER''" and allowOverride = False and w = world0]
    scope_resolver_contract [where cfg = open_cfg and provided = "Some ''SC''" and p = "''SC''"
       and allowOverride = False and w = world0]
    scope_resolver_contract [where cfg = open_cfg and provided = None and allowOverride = False
       and w = world0 and args = "issues_args Create None None" and v = accept_all
       and c = demo_client]
  by (simp add: team_cfg_def open_cfg_def world0_def truthy_def issues_args_def)

section \<open>The query tool without a configured project\<close>



section \<open>Creation when the field command fails\<close>

lemma send_calls: "send c r w = (res, w') \<Longrightarrow> calls w' = calls w @ [r]"
  by (auto simp: send_def)

lemma logger_warn_calls [simp]: "calls (logger_warn m j w) = calls w"
  by (simp add: logger_warn_def)

lemma commandParts_task: "join '' '' (commandParts task_params) = ''Type: Task Priority: Normal Dev_Team: Backend''"
  by (simp add: commandParts_def task_params_def Let_def truthy_def tmpl_def or_else_def lower_Task)

lemma internal_77: "isInternalId ''77-1''"
  by code_simp

text \<open>
  Claim C1, as stated, fails.  At a backend that creates the draft
  \<^verbatim>\<open>d-1\<close> and rejects the field command, \<^verbatim>\<open>createIssue\<close> answers with an error
  response and has sent two requests, the draft and the command: the draft is
  not submitted.
\<close>

theorem creation_not_submitted_after_field_failure:
  "fst (createIssue demo_client ''77-1'' task_params world0) =
     FormatError ''Draft created but failed to apply fields: Unknown field''
       (JObj [(''draftId'', JStr ''d-1''),
              (''command'', JStr ''Type: Task Priority: Normal Dev_Team: Backend''),
              (''projectId'', JStr ''77-1'')])
   \<and> calls (snd (createIssue demo_client ''77-1'' task_params world0)) =
       [draftRequest demo_client (JStr ''77-1'') task_params,
        draftCommandRequest ''Type: Task Priority: Normal Dev_Team: Backend'' (JStr ''d-1'')]
   \<and> \<not> list_ex is_submitRequest (calls (snd (createIssue demo_client ''77-1'' task_params world0)))"
  by (simp add: createIssue_def createIssue_try_def Let_def resolveInternalProjectId_def
        internal_77 send_def demo_client_def draftRequest_def world0_def commandParts_task
        draftCommandRequest_def message_or_String_def is_submitRequest_def)

text \<open>
  Claim C1, amended.  For every creation call in which draft creation succeeds
  and the combined field command fails, the workflow stops there: it logs the
  failure as a warning, sends no request after the failed command (the draft is
  not submitted), and returns an error response whose message is
  \<^verbatim>\<open>Draft created but failed to apply fields:\<close> followed by the error text and
  whose context carries the draft id, the command and the project id.
\<close>

theorem field_application_failure_stops_creation:
  assumes "resolveInternalProjectId c projId w = (pid, w1)"
    and "send c (draftRequest c pid params) w1 = (Inr draftData, w2)"
    and "jtruthy (property draftData ''id'')"
    and "send c (draftCommandRequest (join '' '' (commandParts params))
                   (property draftData ''id'')) w2 = (Inl cmdError, w3)"
  shows "createIssue c projId params w =
           (FormatError
              (''Draft created but failed to apply fields: '' @ message_or_String cmdError)
              (JObj [(''draftId'', property draftData ''id''),
                     (''command'', JStr (join '' '' (commandParts params))),
                     (''projectId'', JStr projId)]),
            logger_warn (''Command failed for draft '' @ jtmpl (property draftData ''id'')
                         @ '': '' @ message_or_String cmdError) JUndefined w3)
         \<and> calls w3 = calls w1 @ [draftRequest c pid params,
               draftCommandRequest (join '' '' (commandParts params))
                 (property draftData ''id'')]"
proof
  show "createIssue c projId params w =
           (FormatError
              (''Draft created but failed to apply fields: '' @ message_or_String cmdError)
              (JObj [(''draftId'', property draftData ''id''),
                     (''command'', JStr (join '' '' (commandParts params))),
                     (''projectId'', JStr projId)]),
            logger_warn (''Command failed for draft '' @ jtmpl (property draftData ''id'')
                         @ '': '' @ message_or_String cmdError) JUndefined w3)"
    using assms by (simp add: createIssue_def createIssue_try_def Let_def)
  from assms(2) have "calls w2 = calls w1 @ [draftRequest c pid params]"
    by (rule send_calls)
  moreover from assms(4) have "calls w3 = calls w2 @ [draftCommandRequest
      (join '' '' (commandParts params)) (property draftData ''id'')]"
    by (rule send_calls)
  ultimately show "calls w3 = calls w1 @ [draftRequest c pid params,
               draftCommandRequest (join '' '' (commandParts params))
                 (property draftData ''id'')]"
    by simp
qed

theorem field_application_failure_stops_creation_witness:
  "createIssue demo_client ''77-1'' task_params world0 =
     (FormatError ''Draft created but failed to apply fields: Unknown field''
        (JObj [(''draftId'', JStr ''d-1''),
               (''command'', JStr ''Type: Task Priority: Normal Dev_Team: Backend''),
               (''projectId'', JStr ''77-1'')]),
      \<lparr>calls = [draftRequest demo_client (JStr ''77-1'') task_params,
                 draftCommandRequest ''Type: Task Priority: Normal Dev_Team: Backend''
                   (JStr ''d-1'')],
        logs = [(Warn, ''Command failed for draft d-1: Unknown field'', JUndefined)]\<rparr>)"
proof -
  let ?w2 = "\<lparr>calls = [draftRequest demo_client (JStr ''77-1'') task_params], logs = []\<rparr>"
  let ?w3 = "\<lparr>calls = [draftRequest demo_client (JStr ''77-1'') task_params,
                 draftCommandRequest ''Type: Task Priority: Normal Dev_Team: Backend''
                   (JStr ''d-1'')], logs = []\<rparr>"
  let ?d = "JObj [(''id'', JStr ''d-1''), (''idReadable'', JStr ''SC-1'')]"
  have h1: "resolveInternalProjectId demo_client ''77-1'' world0 = (JStr ''77-1'', world0)"
    by (simp add: resolveInternalProjectId_def internal_77)
  have h2: "send demo_client (draftRequest demo_client (JStr ''77-1'') task_params) world0
              = (Inr ?d, ?w2)"
    by (simp add: send_def demo_client_def draftRequest_def world0_def)
  have h3: "jtruthy (property ?d ''id'')"
    by simp
  have h4: "send demo_client (draftCommandRequest (join '' '' (commandParts task_params))
                   (property ?d ''id'')) ?w2 = (Inl (Error ''Unknown field''), ?w3)"
    by (simp add: send_def demo_client_def draftCommandRequest_def commandParts_task)
  show ?thesis
    using field_application_failure_stops_creation [OF h1 h2 h3 h4]
    by (simp add: commandParts_task message_or_String_def logger_warn_def)
qed


section \<open>Updates apply each command on its own\<close>

lemma logger_error_calls [simp]: "calls (logger_error m j w) = calls w"
  by (simp add: logger_error_def)

lemma applyCommand_send:
  "applyCommand c (JStr iid) cmd w = send c (commandRequest iid cmd) w"
  by (simp add: applyCommand_def commandRequest_def)

lemma applyCommands_result:
  "applyCommands c iid cmds errs w = (errs', w') \<Longrightarrow>
     errs' = errs @ commandErrorLines c iid cmds (calls w)
     \<and> calls w' = calls w @ map (commandRequest iid) cmds"
proof (induction cmds arbitrary: errs w)
  case Nil
  then show ?case by (simp add: commandErrorLines_def)
next
  case (Cons cmd cmds)
  show ?case
  proof (cases "transport c (calls w) (commandRequest iid cmd)")
    case (Inl err)
    let ?w1 = "logger_warn (''Failed to apply command to issue '' @ iid @ '': '' @ cmd
                  @ '' -> '' @ message_or_String err) JUndefined
                 (w\<lparr>calls := calls w @ [commandRequest iid cmd]\<rparr>)"
    from Cons.prems Inl have
      "applyCommands c iid cmds (errs @ [cmd @ '': '' @ message_or_String err]) ?w1
         = (errs', w')"
      by (simp add: applyCommand_send send_def Let_def)
    from Cons.IH [OF this] Inl show ?thesis
      by (simp add: commandErrorLines_def)
  next
    case (Inr r)
    from Cons.prems Inr have
      "applyCommands c iid cmds errs (w\<lparr>calls := calls w @ [commandRequest iid cmd]\<rparr>)
         = (errs', w')"
      by (simp add: applyCommand_send send_def)
    from Cons.IH [OF this] Inr show ?thesis
      by (simp add: commandErrorLines_def)
  qed
qed

lemma updateBasicFields_result:
  "updateBasicFields c iid updates errs w = (errs', w') \<Longrightarrow>
     errs' = errs @ basicErrorLines c iid updates (calls w)
     \<and> calls w' = calls w @ basicRequests c iid updates"
  by (auto simp add: updateBasicFields_def Let_def send_def basicErrorLines_def
        basicRequests_def writeErrorLine_def
      split: if_splits sum.splits)

lemma updateTags_result:
  "updateTags c iid updates errs w = (errs', w') \<Longrightarrow>
     errs' = errs @ tagErrorLines c iid updates (calls w)
     \<and> calls w' = calls w @ tagRequests iid updates"
  by (auto simp add: updateTags_def Let_def send_def tagErrorLines_def tagRequests_def
        writeErrorLine_def
      split: if_splits sum.splits option.splits)

lemma updateRequests_split:
  "updateRequests c iid updates =
     map (commandRequest iid) (updateCommandParts updates) @ basicRequests c iid updates
     @ tagRequests iid updates @ [refreshRequest iid]"
  by (simp add: updateRequests_def basicRequests_def tagRequests_def)

lemma updateIssue_result:
  assumes "errs = commandErrorLines c iid (updateCommandParts updates) (calls w)
              @ basicErrorLines c iid updates
                  (calls w @ map (commandRequest iid) (updateCommandParts updates))
              @ tagErrorLines c iid updates
                  (calls w @ map (commandRequest iid) (updateCommandParts updates)
                   @ basicRequests c iid updates)"
  shows "\<exists>data msg. fst (updateIssue c iid updates w) =
           FormatUpdated data ''Issue'' updates msg
             (updateMeta (updateCommandParts updates) errs)"
    and "calls (snd (updateIssue c iid updates w)) = calls w @ updateRequests c iid updates"
proof -
  obtain e1 w1 where s1:
    "applyCommands c iid (updateCommandParts updates) [] w = (e1, w1)"
    by (cases "applyCommands c iid (updateCommandParts updates) [] w")
  obtain e2 w2 where s2: "updateBasicFields c iid updates e1 w1 = (e2, w2)"
    by (cases "updateBasicFields c iid updates e1 w1")
  obtain e3 w3 where s3: "updateTags c iid updates e2 w2 = (e3, w3)"
    by (cases "updateTags c iid updates e2 w2")
  from applyCommands_result [OF s1] have
    r1: "e1 = commandErrorLines c iid (updateCommandParts updates) (calls w)"
    and c1: "calls w1 = calls w @ map (commandRequest iid) (updateCommandParts updates)"
    by simp_all
  from updateBasicFields_result [OF s2] have
    r2: "e2 = e1 @ basicErrorLines c iid updates (calls w1)"
    and c2: "calls w2 = calls w1 @ basicRequests c iid updates"
    by simp_all
  from updateTags_result [OF s3] have
    r3: "e3 = e2 @ tagErrorLines c iid updates (calls w2)"
    and c3: "calls w3 = calls w2 @ tagRequests iid updates"
    by simp_all
  have e3: "e3 = errs"
    using r1 r2 r3 c1 c2 assms by simp
  have calls3: "calls w3 @ [refreshRequest iid] = calls w @ updateRequests c iid updates"
    using c1 c2 c3 by (simp add: updateRequests_split)
  show "\<exists>data msg. fst (updateIssue c iid updates w) =
           FormatUpdated data ''Issue'' updates msg
             (updateMeta (updateCommandParts updates) errs)"
    using s1 s2 s3 e3
    by (cases "transport c (calls w3) (refreshRequest iid)")
       (auto simp add: updateIssue_def Let_def send_def)
  show "calls (snd (updateIssue c iid updates w)) = calls w @ updateRequests c iid updates"
    using s1 s2 s3 calls3
    by (cases "transport c (calls w3) (refreshRequest iid)")
       (auto simp add: updateIssue_def Let_def send_def)
qed

lemma updateMeta_properties:
  "property (updateMeta parts errs) ''appliedCommands'' = JNum (int (length parts))"
  "property (updateMeta parts errs) ''commandErrorsCount'' = JNum (int (length errs))"
  "property (updateMeta parts errs) ''commandErrors'' =
     (if errs = [] then JUndefined else JArr (map JStr errs))"
  by (simp_all add: updateMeta_def)

lemma three_updates_parts:
  "updateCommandParts three_updates = [''State: Open'', ''Priority: Bogus'', ''Assignee: jdoe'']"
  by (simp add: updateCommandParts_def three_updates_def Let_def truthy_def tmpl_def)

text \<open>
  Claim C5, as stated, fails.  At a backend that rejects the second of three
  commands and both direct writes, the update reports three errors for three
  commands attempted, and two of the lines of \<^verbatim>\<open>commandErrors\<close> report no
  command: they are the lines of the failed direct writes.
\<close>

theorem write_failures_join_commandErrors:
  "is_formatUpdated (fst (updateIssue stubborn_client ''SC-7'' three_updates world0))
   \<and> meta_of (fst (updateIssue stubborn_client ''SC-7'' three_updates world0)) =
       JObj [(''appliedCommands'', JNum 3), (''commandErrorsCount'', JNum 3),
             (''commandErrors'',
              JArr [JStr ''Priority: Bogus: Unknown value Bogus'', JStr ''Basic fields: boom'',
                    JStr ''Tags: boom''])]
   \<and> \<not> is_commandErrorLine (updateCommandParts three_updates) ''Basic fields: boom''
   \<and> \<not> is_commandErrorLine (updateCommandParts three_updates) ''Tags: boom''"
proof -
  have payload:
    "basicFieldPayload stubborn_client three_updates = [(''summary'', JStr ''New title'')]"
    by (simp add: basicFieldPayload_def three_updates_def truthy_def opt_str_def)
  have tg: "IssueUpdateParams.tags three_updates = Some [''urgent'']"
    by (simp add: three_updates_def)
  have t: "transport stubborn_client = stubborn"
    by (simp add: stubborn_client_def)
  have "fst (updateIssue stubborn_client ''SC-7'' three_updates world0) =
     FormatUpdated (JObj [(''id'', JStr ''2-7''), (''idReadable'', JStr ''SC-7'')]) ''Issue''
       three_updates ''Issue SC-7 updated with partial errors''
       (JObj [(''appliedCommands'', JNum 3), (''commandErrorsCount'', JNum 3),
              (''commandErrors'',
               JArr [JStr ''Priority: Bogus: Unknown value Bogus'', JStr ''Basic fields: boom'',
                     JStr ''Tags: boom''])])"
    by (simp add: updateIssue_def three_updates_parts Let_def applyCommand_def send_def t
          world0_def message_or_String_def logger_warn_def logger_error_def
          updateBasicFields_def payload basicFieldsRequest_def updateTags_def tg
          tagsRequest_def refreshRequest_def jor_def updateMeta_def)
  then show ?thesis
    by (simp add: three_updates_parts is_commandErrorLine_def)
qed

text \<open>
  Claim C5, amended.  For every update payload and every backend,
  \<^verbatim>\<open>updateIssue\<close> sends one request per synthesized command, in order, then the
  direct write of summary and description when there is one, then the write of
  the tags when there are tags, then the final read: a failure stops none of
  them.  The result is the \<^verbatim>\<open>formatUpdated\<close> envelope.  Its meta data give
  \<^verbatim>\<open>appliedCommands\<close>, the number of commands attempted, and
  \<^verbatim>\<open>commandErrorsCount\<close>, the number of error lines; the error lines are, in
  order, one line \<^verbatim>\<open>command: message\<close> per failed command, then
  \<^verbatim>\<open>Basic fields: message\<close> when the direct write failed, then
  \<^verbatim>\<open>Tags: message\<close> when the write of the tags failed; \<^verbatim>\<open>commandErrors\<close> holds
  these lines and is left out when there is none.
\<close>

theorem update_commands_are_isolated:
  "(let parts = updateCommandParts updates;
        sent = calls w @ map (commandRequest iid) parts;
        errs = commandErrorLines c iid parts (calls w)
               @ basicErrorLines c iid updates sent
               @ tagErrorLines c iid updates (sent @ basicRequests c iid updates);
        response = fst (updateIssue c iid updates w)
    in is_formatUpdated response
       \<and> property (meta_of response) ''appliedCommands'' = JNum (int (length parts))
       \<and> property (meta_of response) ''commandErrorsCount'' = JNum (int (length errs))
       \<and> property (meta_of response) ''commandErrors'' =
            (if errs = [] then JUndefined else JArr (map JStr errs))
       \<and> calls (snd (updateIssue c iid updates w)) =
            sent @ basicRequests c iid updates @ tagRequests iid updates
            @ [refreshRequest iid])"
proof -
  let ?parts = "updateCommandParts updates"
  let ?sent = "calls w @ map (commandRequest iid) ?parts"
  let ?errs = "commandErrorLines c iid ?parts (calls w)
               @ basicErrorLines c iid updates ?sent
               @ tagErrorLines c iid updates (?sent @ basicRequests c iid updates)"
  have "\<exists>data msg. fst (updateIssue c iid updates w) =
          FormatUpdated data ''Issue'' updates msg (updateMeta ?parts ?errs)"
    by (rule updateIssue_result(1)) simp
  then obtain data msg where
    r: "fst (updateIssue c iid updates w) =
          FormatUpdated data ''Issue'' updates msg (updateMeta ?parts ?errs)"
    by auto
  have "calls (snd (updateIssue c iid updates w)) = calls w @ updateRequests c iid updates"
    by (rule updateIssue_result(2) [of ?errs]) simp
  then have c: "calls (snd (updateIssue c iid updates w)) =
            ?sent @ basicRequests c iid updates @ tagRequests iid updates
            @ [refreshRequest iid]"
    by (simp add: updateRequests_split)
  have m1: "property (updateMeta ?parts ?errs) ''appliedCommands'' = JNum (int (length ?parts))"
    by (rule updateMeta_properties(1))
  have m2: "property (updateMeta ?parts ?errs) ''commandErrorsCount'' = JNum (int (length ?errs))"
    by (rule updateMeta_properties(2))
  have m3: "property (updateMeta ?parts ?errs) ''commandErrors'' =
     (if ?errs = [] then JUndefined else JArr (map JStr ?errs))"
    by (rule updateMeta_properties(3))
  show ?thesis
    unfolding Let_def using r c m1 m2 m3 by simp
qed

theorem update_commands_are_isolated_witness:
  "is_formatUpdated (fst (updateIssue picky_client ''SC-7'' three_updates world0))
   \<and> property (meta_of (fst (updateIssue picky_client ''SC-7'' three_updates world0)))
        ''appliedCommands'' = JNum 3
   \<and> property (meta_of (fst (updateIssue picky_client ''SC-7'' three_updates world0)))
        ''commandErrorsCount'' = JNum 1
   \<and> property (meta_of (fst (updateIssue picky_client ''SC-7'' three_updates world0)))
        ''commandErrors'' = JArr [JStr ''Priority: Bogus: Unknown value Bogus'']
   \<and> calls (snd (updateIssue picky_client ''SC-7'' three_updates world0)) =
       [commandRequest ''SC-7'' ''State: Open'', commandRequest ''SC-7'' ''Priority: Bogus'',
        commandRequest ''SC-7'' ''Assignee: jdoe'',
        basicFieldsRequest ''SC-7'' [(''summary'', JStr ''New title'')],
        tagsRequest ''SC-7'' [''urgent''], refreshRequest ''SC-7'']"
proof -
  have payload: "basicFieldPayload picky_client three_updates = [(''summary'', JStr ''New title'')]"
    by (simp add: basicFieldPayload_def three_updates_def truthy_def opt_str_def)
  have tg: "IssueUpdateParams.tags three_updates = Some [''urgent'']"
    by (simp add: three_updates_def)
  have t: "transport picky_client = picky"
    by (simp add: picky_client_def)
  have cmd: "commandErrorLines picky_client ''SC-7''
               [''State: Open'', ''Priority: Bogus'', ''Assignee: jdoe''] [] =
             [''Priority: Bogus: Unknown value Bogus'']"
    by (simp add: commandErrorLines_def t commandRequest_def message_or_String_def)
  have basic: "\<And>h. basicErrorLines picky_client ''SC-7'' three_updates h = []"
    by (simp add: basicErrorLines_def basicRequests_def payload t basicFieldsRequest_def
          writeErrorLine_def)
  have tags: "\<And>h. tagErrorLines picky_client ''SC-7'' three_updates h = []"
    by (simp add: tagErrorLines_def tagRequests_def tg t tagsRequest_def writeErrorLine_def)
  show ?thesis
    using update_commands_are_isolated [of three_updates world0 "''SC-7''" picky_client]
    by (simp add: Let_def three_updates_parts world0_def cmd basic tags basicRequests_def
          payload tagRequests_def tg)
qed

section \<open>Order and determinism of the creation commands\<close>

lemma setBusinessProcDirect_calls:
  "prefix (calls w) (calls (setBusinessProcDirect c bp i w))"
  by (auto simp add: setBusinessProcDirect_def Let_def send_def
      split: prod.splits sum.splits)

lemma setBusinessProc_calls:
  "prefix (calls w) (calls (setBusinessProc c bp i w))"
proof (cases "transport c (calls w)
    (POST ''/commands'' (JObj [(''query'', JStr (''Business_proc '' @ bp)),
        (''issues'', JArr [JObj [(''idReadable'', i)]])]))")
  case (Inl e)
  have "prefix (calls w @ [POST ''/commands'' (JObj [(''query'', JStr (''Business_proc '' @ bp)),
        (''issues'', JArr [JObj [(''idReadable'', i)]])])])
      (calls (setBusinessProcDirect c bp i (w\<lparr>calls := calls w @ [POST ''/commands''
        (JObj [(''query'', JStr (''Business_proc '' @ bp)),
        (''issues'', JArr [JObj [(''idReadable'', i)]])])]\<rparr>)))"
    using setBusinessProcDirect_calls [of "w\<lparr>calls := calls w @ [POST ''/commands''
        (JObj [(''query'', JStr (''Business_proc '' @ bp)),
        (''issues'', JArr [JObj [(''idReadable'', i)]])])]\<rparr>" c bp i]
    by simp
  then have "prefix (calls w)
      (calls (setBusinessProcDirect c bp i (w\<lparr>calls := calls w @ [POST ''/commands''
        (JObj [(''query'', JStr (''Business_proc '' @ bp)),
        (''issues'', JArr [JObj [(''idReadable'', i)]])])]\<rparr>)))"
    using append_prefixD by blast
  with Inl show ?thesis
    by (simp add: setBusinessProc_def applyCommand_def send_def)
next
  case (Inr r)
  then show ?thesis
    by (simp add: setBusinessProc_def applyCommand_def send_def)
qed

lemma submitDraft_calls:
  "prefix (calls w) (calls (snd (submitDraft c params d w)))"
proof -
  let ?r = "POST (''/issues?draftId='' @ jtmpl d @ ''&fields=id,idReadable,summary,$type'')
              (JObj [])"
  let ?w1 = "w\<lparr>calls := calls w @ [?r]\<rparr>"
  have a: "prefix (calls w) (calls ?w1)" by simp
  have b: "\<And>bp i. prefix (calls w) (calls (setBusinessProc c bp i ?w1))"
    using setBusinessProc_calls [of ?w1 c] a prefix_order.trans by blast
  show ?thesis
    using a b
    by (auto simp add: submitDraft_def send_def Let_def split: sum.splits)
qed

lemma commandParts_epic:
  "commandParts epic_params =
     [''subtask of SC-1'', ''Type: Epic'', ''Priority: Major'', ''Sorting: 7'', ''Assignee: jdoe'']"
  by (simp add: commandParts_def epic_params_def Let_def truthy_def tmpl_def or_else_def
        lower_Epic numberToString_7)

text \<open>
  Claim C9.  The commands synthesized for a creation are a function of the
  creation parameters alone, and they come in the fixed order parent link,
  Type, Priority, Sorting, Dev_Team, Assignee, each at most once: their ranks
  are strictly increasing.  The Priority clause is always there, with the
  supplied priority or \<^verbatim>\<open>Normal\<close>.  Whatever the backend and the project, once
  the draft exists the request after the draft request is this command list,
  joined by spaces, applied to the draft.
\<close>

theorem creation_command_order:
  "sorted_wrt (<) (map clause_rank (commandParts params))
   \<and> list_all (\<lambda>part. clause_rank part < 6) (commandParts params)
   \<and> filter (is_clause ''Priority'') (commandParts params) =
       [''Priority: '' @ or_else (IssueCreateParams.priority params) ''Normal'']
   \<and> (resolveInternalProjectId c projId w = (pid, w1)
        \<and> send c (draftRequest c pid params) w1 = (Inr draftData, w2)
        \<and> jtruthy (property draftData ''id'') \<longrightarrow>
      prefix (calls w1 @ [draftRequest c pid params,
                draftCommandRequest (join '' '' (commandParts params))
                  (property draftData ''id'')])
             (calls (snd (createIssue c projId params w))))"
proof (intro conjI impI)
  show "sorted_wrt (<) (map clause_rank (commandParts params))"
    by (simp add: commandParts_def Let_def clause_rank_def is_clause_def)
  show "list_all (\<lambda>part. clause_rank part < 6) (commandParts params)"
    by (simp add: commandParts_def Let_def clause_rank_def is_clause_def)
  show "filter (is_clause ''Priority'') (commandParts params) =
       [''Priority: '' @ or_else (IssueCreateParams.priority params) ''Normal'']"
    by (simp add: commandParts_def Let_def is_clause_def)
next
  assume h: "resolveInternalProjectId c projId w = (pid, w1)
        \<and> send c (draftRequest c pid params) w1 = (Inr draftData, w2)
        \<and> jtruthy (property draftData ''id'')"
  let ?cmd = "draftCommandRequest (join '' '' (commandParts params)) (property draftData ''id'')"
  let ?w3 = "w2\<lparr>calls := calls w2 @ [?cmd]\<rparr>"
  from h have c2: "calls w2 = calls w1 @ [draftRequest c pid params]"
    by (auto simp: send_def)
  then have c3: "calls ?w3 = calls w1 @ [draftRequest c pid params, ?cmd]"
    by simp
  show "prefix (calls w1 @ [draftRequest c pid params, ?cmd])
             (calls (snd (createIssue c projId params w)))"
  proof (cases "transport c (calls w2) ?cmd")
    case (Inl cmdError)
    with h c3 show ?thesis
      by (simp add: createIssue_def createIssue_try_def Let_def send_def logger_warn_def)
  next
    case (Inr r)
    have "prefix (calls ?w3) (calls (snd (submitDraft c params (property draftData ''id'') ?w3)))"
      by (rule submitDraft_calls)
    with h Inr c3 show ?thesis
      by (auto simp add: createIssue_def createIssue_try_def Let_def send_def
          split: prod.splits sum.splits)
  qed
qed

theorem creation_command_order_witness:
  "sorted_wrt (<) (map clause_rank (commandParts epic_params))
   \<and> prefix [draftRequest demo_client (JStr ''77-1'') task_params,
              draftCommandRequest ''Type: Task Priority: Normal Dev_Team: Backend'' (JStr ''d-1'')]
        (calls (snd (createIssue demo_client ''77-1'' task_params world0)))"
proof -
  let ?d = "JObj [(''id'', JStr ''d-1''), (''idReadable'', JStr ''SC-1'')]"
  let ?w2 = "\<lparr>calls = [draftRequest demo_client (JStr ''77-1'') task_params], logs = []\<rparr>"
  have h: "resolveInternalProjectId demo_client ''77-1'' world0 = (JStr ''77-1'', world0)
        \<and> send demo_client (draftRequest demo_client (JStr ''77-1'') task_params) world0
            = (Inr ?d, ?w2)
        \<and> jtruthy (property ?d ''id'')"
    by (simp add: resolveInternalProjectId_def internal_77 send_def demo_client_def
          draftRequest_def world0_def)
  show ?thesis
    using creation_command_order [of epic_params]
      creation_command_order [of task_params demo_client "''77-1''" world0 "JStr ''77-1''"
        world0 ?d ?w2] h
    by (simp add: commandParts_task world0_def)
qed


section \<open>Where the enforced project is not applied\<close>

text \<open>
  Claim C2 fails on the \<^verbatim>\<open>count\<close> action.  With the enforced project
  \<^verbatim>\<open>TEAM\<close> configured, a count whose query names project \<^verbatim>\<open>OTHER\<close> reaches the
  backend with the caller's query as it was written: \<^verbatim>\<open>handleIssuesManage\<close>
  passes the query to \<^verbatim>\<open>getIssueCount\<close> without resolving the project, although
  the comment on that branch promises the scoping of \<^verbatim>\<open>handleQueryIssues\<close>.
\<close>

theorem count_ignores_enforced_project:
  "calls (snd (handleIssuesManage team_cfg accept_all demo_client
           (issues_args Count (Some ''OTHER'') (Some ''project: OTHER #Unresolved'')) world0))
     = [countRequest ''project: OTHER #Unresolved'']"
  by code_simp

text \<open>
  Claim C4 fails on queries with a second project clause, and on queries that
  contain \<^verbatim>\<open>project:\<close> with no value after it.  With the enforced project
  \<^verbatim>\<open>TEAM\<close>, the query \<^verbatim>\<open>project: A or project: B\<close> is sent with its first clause
  rewritten and its second clause still naming \<^verbatim>\<open>B\<close>; the query
  \<^verbatim>\<open>#Unresolved project:\<close> is sent unchanged, neither prefixed nor rewritten.
\<close>

theorem later_project_clause_not_rewritten:
  "calls (snd (handleQueryIssues team_cfg demo_client
           \<lparr>QueryArgs.query = Some ''project: A or project: B'', QueryArgs.fields' = None,
            QueryArgs.limit = None\<rparr> world0))
     = [queryRequest demo_client
          \<lparr>IssueQueryParams.query = JStr ''project: TEAM or project: B'',
           IssueQueryParams.fields' = defaultQueryFields,
           IssueQueryParams.limit = JNum 50, skip = JUndefined\<rparr>]
   \<and> calls (snd (handleQueryIssues team_cfg demo_client
           \<lparr>QueryArgs.query = Some ''#Unresolved project:'', QueryArgs.fields' = None,
            QueryArgs.limit = None\<rparr> world0))
     = [queryRequest demo_client
          \<lparr>IssueQueryParams.query = JStr ''#Unresolved project:'',
           IssueQueryParams.fields' = defaultQueryFields,
           IssueQueryParams.limit = JNum 50, skip = JUndefined\<rparr>]"
  by code_simp


end
